theory Spec2Isabelle
  imports Main
begin

section \<open>The node store of \<open>st.py\<close>\<close>

text \<open>
  \<open>st.py\<close> builds a mutable search tree out of Python objects that point at each other:
  an \<open>InnerNode\<close> holds its value, its two children, a cached height and a pointer to its
  parent; the one \<open>Empty\<close> object stands for every missing subtree, and it too has a
  \<open>parent\<close> attribute. Object identity is modelled by addresses: a node reference is
  either the tag \<open>Empty\<close> or \<open>Ptr a\<close>, the \<open>a\<close>-th object ever created, and the objects
  live in a list that only grows. The state of the program is that list, the \<open>parent\<close>
  attribute of the \<open>Empty\<close> object, and the \<open>root\<close> attribute of the \<open>Tree\<close>.
\<close>

datatype ref = Empty | Ptr nat

datatype error = AttributeError | AssertionError

record 'a inner_node =
  f_value :: 'a
  f_left :: ref
  f_right :: ref
  f_height :: int
  f_parent :: "nat option"

record 'a tree =
  nodes :: "'a inner_node list"
  empty_parent :: "nat option"
  root :: ref

text \<open>\<open>EmptyClass.__new__\<close> followed by \<open>Tree.__init__\<close>: no inner node, \<open>Empty.parent = None\<close>,
  \<open>root = Empty\<close>.\<close>

definition init :: "'a tree" where
  "init = \<lparr>nodes = [], empty_parent = None, root = Empty\<rparr>"

subsection \<open>Attribute reads\<close>

definition parent :: "'a tree \<Rightarrow> ref \<Rightarrow> nat option" where
  "parent s r = (case r of Empty \<Rightarrow> empty_parent s | Ptr a \<Rightarrow> f_parent (nodes s ! a))"

definition value_of :: "'a tree \<Rightarrow> ref \<Rightarrow> error + 'a" where
  "value_of s r = (case r of Empty \<Rightarrow> Inl AttributeError | Ptr a \<Rightarrow> Inr (f_value (nodes s ! a)))"

definition left :: "'a tree \<Rightarrow> ref \<Rightarrow> ref" where
  "left s r = (case r of Empty \<Rightarrow> Empty | Ptr a \<Rightarrow> f_left (nodes s ! a))"

definition right :: "'a tree \<Rightarrow> ref \<Rightarrow> ref" where
  "right s r = (case r of Empty \<Rightarrow> Empty | Ptr a \<Rightarrow> f_right (nodes s ! a))"

definition height :: "'a tree \<Rightarrow> ref \<Rightarrow> int" where
  "height s r = (case r of Empty \<Rightarrow> 0 | Ptr a \<Rightarrow> f_height (nodes s ! a))"

definition bf :: "'a tree \<Rightarrow> ref \<Rightarrow> int" where
  "bf s r = (case r of Empty \<Rightarrow> 0 | Ptr a \<Rightarrow> height s (right s r) - height s (left s r))"

subsection \<open>Attribute writes\<close>

text \<open>\<open>r.parent = p\<close>. The target may be the \<open>Empty\<close> object.\<close>

definition set_parent_field :: "'a tree \<Rightarrow> ref \<Rightarrow> nat option \<Rightarrow> 'a tree" where
  "set_parent_field s r p =
     (case r of
        Empty \<Rightarrow> s\<lparr>empty_parent := p\<rparr>
      | Ptr a \<Rightarrow> s\<lparr>nodes := (nodes s)[a := (nodes s ! a)\<lparr>f_parent := p\<rparr>]\<rparr>)"

text \<open>The last line of both setters and of \<open>__post_init__\<close>:
  \<open>self._height = max(self.left.height, self.right.height) + 1\<close>.\<close>

definition update_height :: "'a tree \<Rightarrow> nat \<Rightarrow> 'a tree" where
  "update_height s a =
     s\<lparr>nodes := (nodes s)[a := (nodes s ! a)
        \<lparr>f_height := max (height s (left s (Ptr a))) (height s (right s (Ptr a))) + 1\<rparr>]\<rparr>"

text \<open>The plain stores \<open>self._left = val\<close> and \<open>self._right = val\<close>.\<close>

definition set_left_field :: "'a tree \<Rightarrow> nat \<Rightarrow> ref \<Rightarrow> 'a tree" where
  "set_left_field s a v = s\<lparr>nodes := (nodes s)[a := (nodes s ! a)\<lparr>f_left := v\<rparr>]\<rparr>"

definition set_right_field :: "'a tree \<Rightarrow> nat \<Rightarrow> ref \<Rightarrow> 'a tree" where
  "set_right_field s a v = s\<lparr>nodes := (nodes s)[a := (nodes s ! a)\<lparr>f_right := v\<rparr>]\<rparr>"

text \<open>The setter of \<open>InnerNode.left\<close>: store the child, point the child's parent at this node,
  recompute this node's height. The setter of \<open>InnerNode.right\<close> is its mirror image.\<close>

definition set_left :: "'a tree \<Rightarrow> nat \<Rightarrow> ref \<Rightarrow> 'a tree" where
  "set_left s a v =
     (let s1 = set_left_field s a v;
          s2 = set_parent_field s1 (left s1 (Ptr a)) (Some a)
      in update_height s2 a)"

definition set_right :: "'a tree \<Rightarrow> nat \<Rightarrow> ref \<Rightarrow> 'a tree" where
  "set_right s a v =
     (let s1 = set_right_field s a v;
          s2 = set_parent_field s1 (right s1 (Ptr a)) (Some a)
      in update_height s2 a)"

definition set_value :: "'a tree \<Rightarrow> nat \<Rightarrow> 'a \<Rightarrow> 'a tree" where
  "set_value s a v = s\<lparr>nodes := (nodes s)[a := (nodes s ! a)\<lparr>f_value := v\<rparr>]\<rparr>"

text \<open>\<open>InnerNode(val)\<close>: the dataclass constructor with its defaults
  (\<open>_left = _right = Empty\<close>, \<open>_height = 0\<close>, \<open>parent = None\<close>), then \<open>__post_init__\<close>.
  The new object gets the next free address.\<close>

definition new_node :: "'a tree \<Rightarrow> 'a \<Rightarrow> 'a tree \<times> nat" where
  "new_node s v =
     (let a = length (nodes s);
          s0 = s\<lparr>nodes := nodes s @
                 [\<lparr>f_value = v, f_left = Empty, f_right = Empty, f_height = 0, f_parent = None\<rparr>]\<rparr>;
          s1 = set_parent_field s0 (left s0 (Ptr a)) (Some a);
          s2 = set_parent_field s1 (right s1 (Ptr a)) (Some a)
      in (update_height s2 a, a))"

subsection \<open>Equality of nodes\<close>

text \<open>
  \<open>is_left\<close> and \<open>is_right\<close> compare nodes with \<open>==\<close>, and \<open>InnerNode\<close> is a dataclass: two
  inner nodes are equal when they are the same object or when their fields
  \<open>(_value, _left, _right, _height, parent)\<close> are pairwise equal, compared in that order
  and stopping at the first difference. \<open>Empty\<close> and \<open>None\<close> are equal to themselves only.
  The comparison recurses into children and parents and need not end on a cyclic store;
  the fuel bounds the depth, and \<open>None\<close> is the comparison that did not come back.
\<close>

fun node_eq :: "nat \<Rightarrow> 'a tree \<Rightarrow> ref \<Rightarrow> ref \<Rightarrow> bool option" where
  "node_eq k s Empty Empty = Some True"
| "node_eq k s Empty (Ptr b) = Some False"
| "node_eq k s (Ptr a) Empty = Some False"
| "node_eq 0 s (Ptr a) (Ptr b) = (if a = b then Some True else None)"
| "node_eq (Suc k) s (Ptr a) (Ptr b) =
     (if a = b then Some True
      else if f_value (nodes s ! a) \<noteq> f_value (nodes s ! b) then Some False
      else (case node_eq k s (f_left (nodes s ! a)) (f_left (nodes s ! b)) of
              None \<Rightarrow> None
            | Some False \<Rightarrow> Some False
            | Some True \<Rightarrow>
               (case node_eq k s (f_right (nodes s ! a)) (f_right (nodes s ! b)) of
                  None \<Rightarrow> None
                | Some False \<Rightarrow> Some False
                | Some True \<Rightarrow>
                   (if f_height (nodes s ! a) \<noteq> f_height (nodes s ! b) then Some False
                    else (case (f_parent (nodes s ! a), f_parent (nodes s ! b)) of
                            (None, None) \<Rightarrow> Some True
                          | (Some p, Some q) \<Rightarrow> node_eq k s (Ptr p) (Ptr q)
                          | _ \<Rightarrow> Some False)))))"

text \<open>\<open>self.parent is not None and self.parent.left == self\<close>\<close>

definition is_left :: "nat \<Rightarrow> 'a tree \<Rightarrow> ref \<Rightarrow> bool option" where
  "is_left k s r =
     (case parent s r of None \<Rightarrow> Some False | Some p \<Rightarrow> node_eq k s (left s (Ptr p)) r)"

definition is_right :: "nat \<Rightarrow> 'a tree \<Rightarrow> ref \<Rightarrow> bool option" where
  "is_right k s r =
     (case parent s r of None \<Rightarrow> Some False | Some p \<Rightarrow> node_eq k s (right s (Ptr p)) r)"

section \<open>The methods of \<open>Tree\<close>\<close>

text \<open>
  A method returns \<open>None\<close> when its fuel ran out (a loop or a comparison that did not
  finish within the bound), \<open>Some (Inl e)\<close> when it raised \<open>e\<close>, and \<open>Some (Inr x)\<close> when it
  returned \<open>x\<close>.
\<close>

text \<open>\<open>Tree._set_parent(new, old)\<close>\<close>

definition set_parent :: "nat \<Rightarrow> 'a tree \<Rightarrow> ref \<Rightarrow> ref \<Rightarrow> (error + 'a tree) option" where
  "set_parent k s new old =
     (case parent s old of
        None \<Rightarrow> Some (Inr (set_parent_field (s\<lparr>root := new\<rparr>) new None))
      | Some p \<Rightarrow>
         (let s1 = set_parent_field s new (Some p) in
          case is_left k s1 old of
            None \<Rightarrow> None
          | Some b \<Rightarrow>
             (case parent s1 new of
                None \<Rightarrow> Some (Inl AttributeError)
              | Some q \<Rightarrow> Some (Inr (if b then set_left s1 q new else set_right s1 q new)))))"

text \<open>\<open>Tree._rot_left(x)\<close> and \<open>Tree._rot_right(x)\<close>; the result is the state and \<open>y\<close>.\<close>

definition rot_left :: "nat \<Rightarrow> 'a tree \<Rightarrow> nat \<Rightarrow> (error + 'a tree \<times> nat) option" where
  "rot_left k s x =
     (let y = right s (Ptr x); b = left s y in
      case y of
        Empty \<Rightarrow> Some (Inl AssertionError)
      | Ptr ya \<Rightarrow>
         (case set_parent k s y (Ptr x) of
            None \<Rightarrow> None
          | Some (Inl e) \<Rightarrow> Some (Inl e)
          | Some (Inr s1) \<Rightarrow>
             (let s2 = set_right s1 x b; s3 = set_left s2 ya (Ptr x) in Some (Inr (s3, ya)))))"

definition rot_right :: "nat \<Rightarrow> 'a tree \<Rightarrow> nat \<Rightarrow> (error + 'a tree \<times> nat) option" where
  "rot_right k s x =
     (let y = left s (Ptr x); b = right s y in
      case y of
        Empty \<Rightarrow> Some (Inl AssertionError)
      | Ptr ya \<Rightarrow>
         (case set_parent k s y (Ptr x) of
            None \<Rightarrow> None
          | Some (Inl e) \<Rightarrow> Some (Inl e)
          | Some (Inr s1) \<Rightarrow>
             (let s2 = set_left s1 x b; s3 = set_right s2 ya (Ptr x) in Some (Inr (s3, ya)))))"

text \<open>The four branches of \<open>Tree._balance_node(n)\<close>, before its final assertion.\<close>

definition balance_rotate :: "nat \<Rightarrow> 'a tree \<Rightarrow> nat \<Rightarrow> (error + 'a tree \<times> nat) option" where
  "balance_rotate k s n =
     (if bf s (Ptr n) = 2 \<and> bf s (right s (Ptr n)) \<ge> 0 then rot_left k s n
      else if bf s (Ptr n) = 2 \<and> bf s (right s (Ptr n)) = - 1 then
        (case right s (Ptr n) of
           Empty \<Rightarrow> Some (Inl AssertionError)
         | Ptr r \<Rightarrow>
            (case rot_right k s r of
               None \<Rightarrow> None
             | Some (Inl e) \<Rightarrow> Some (Inl e)
             | Some (Inr (s1, _)) \<Rightarrow> rot_left k s1 n))
      else if bf s (Ptr n) = - 2 \<and> bf s (left s (Ptr n)) \<le> 0 then rot_right k s n
      else if bf s (Ptr n) = - 2 \<and> bf s (left s (Ptr n)) = 1 then
        (case left s (Ptr n) of
           Empty \<Rightarrow> Some (Inl AssertionError)
         | Ptr l \<Rightarrow>
            (case rot_left k s l of
               None \<Rightarrow> None
             | Some (Inl e) \<Rightarrow> Some (Inl e)
             | Some (Inr (s1, _)) \<Rightarrow> rot_right k s1 n))
      else Some (Inr (s, n)))"

text \<open>\<open>Tree._balance_node(n)\<close>: the rotation, then \<open>assert -2 < n.bf < +2\<close>.\<close>

definition balance_node :: "nat \<Rightarrow> 'a tree \<Rightarrow> nat \<Rightarrow> (error + 'a tree \<times> nat) option" where
  "balance_node k s n =
     (case balance_rotate k s n of
        None \<Rightarrow> None
      | Some (Inl e) \<Rightarrow> Some (Inl e)
      | Some (Inr (s1, n1)) \<Rightarrow>
         (if - 2 < bf s1 (Ptr n1) \<and> bf s1 (Ptr n1) < 2 then Some (Inr (s1, n1))
          else Some (Inl AssertionError)))"

text \<open>\<open>Tree._rebalance(n)\<close>: \<open>while (p := n.parent): p = self._balance_node(p); n = p\<close>.\<close>

fun rebalance :: "nat \<Rightarrow> 'a tree \<Rightarrow> ref \<Rightarrow> (error + 'a tree) option" where
  "rebalance 0 s n = None"
| "rebalance (Suc k) s n =
     (case parent s n of
        None \<Rightarrow> Some (Inr s)
      | Some p \<Rightarrow>
         (case balance_node (Suc k) s p of
            None \<Rightarrow> None
          | Some (Inl e) \<Rightarrow> Some (Inl e)
          | Some (Inr (s1, p1)) \<Rightarrow> rebalance k s1 (Ptr p1)))"

text \<open>\<open>Tree._set_child(parent, child, is_left)\<close>\<close>

definition set_child :: "nat \<Rightarrow> 'a tree \<Rightarrow> nat option \<Rightarrow> ref \<Rightarrow> bool \<Rightarrow> (error + 'a tree) option" where
  "set_child k s p child went_left =
     (case p of
        None \<Rightarrow> Some (Inr (s\<lparr>root := child\<rparr>))
      | Some pa \<Rightarrow>
         rebalance k (if went_left then set_left s pa child else set_right s pa child) child)"

text \<open>\<open>Tree.insert(val)\<close>: the descent with its early return, then the new leaf.\<close>

fun insert_loop ::
  "nat \<Rightarrow> 'a::linorder tree \<Rightarrow> 'a \<Rightarrow> ref \<Rightarrow> nat option \<Rightarrow> bool \<Rightarrow> (error + 'a tree) option" where
  "insert_loop 0 s val t p went_left = None"
| "insert_loop (Suc k) s val t p went_left =
     (case t of
        Empty \<Rightarrow> (let (s1, a) = new_node s val in set_child (Suc k) s1 p (Ptr a) went_left)
      | Ptr a \<Rightarrow>
         (if val = f_value (nodes s ! a) then Some (Inr s)
          else if val < f_value (nodes s ! a) then insert_loop k s val (left s t) (Some a) True
          else insert_loop k s val (right s t) (Some a) False))"

definition insert_tree :: "nat \<Rightarrow> 'a::linorder tree \<Rightarrow> 'a \<Rightarrow> (error + 'a tree) option" where
  "insert_tree k s val = insert_loop k s val (root s) None True"

text \<open>\<open>rightmost(t)\<close>\<close>

fun rightmost_loop :: "nat \<Rightarrow> 'a tree \<Rightarrow> ref \<Rightarrow> (error + 'a) option" where
  "rightmost_loop 0 s t = None"
| "rightmost_loop (Suc k) s t =
     (if right s t \<noteq> Empty then rightmost_loop k s (right s t) else Some (value_of s t))"

definition rightmost :: "nat \<Rightarrow> 'a tree \<Rightarrow> ref \<Rightarrow> (error + 'a) option" where
  "rightmost k s t = (if t = Empty then Some (Inl AssertionError) else rightmost_loop k s t)"

text \<open>\<open>Tree._remove(val, t, p, went_left)\<close>: the loop and the recursive call share the fuel.\<close>

fun remove_loop ::
  "nat \<Rightarrow> 'a::linorder tree \<Rightarrow> 'a \<Rightarrow> ref \<Rightarrow> nat option \<Rightarrow> bool \<Rightarrow> (error + 'a tree) option" where
  "remove_loop 0 s val t p went_left = None"
| "remove_loop (Suc k) s val t p went_left =
     (case t of
        Empty \<Rightarrow> Some (Inr s)
      | Ptr n \<Rightarrow>
         (if val = f_value (nodes s ! n) then
            (if left s t = Empty then set_child (Suc k) s p (right s t) went_left
             else if right s t = Empty then set_child (Suc k) s p (left s t) went_left
             else (case rightmost (Suc k) s (left s t) of
                     None \<Rightarrow> None
                   | Some (Inl e) \<Rightarrow> Some (Inl e)
                   | Some (Inr v) \<Rightarrow>
                      (let s1 = set_value s n v in
                       remove_loop k s1 (f_value (nodes s1 ! n)) (left s1 t) (Some n) True)))
          else if val < f_value (nodes s ! n) then remove_loop k s val (left s t) (Some n) True
          else remove_loop k s val (right s t) (Some n) False))"

definition remove_tree :: "nat \<Rightarrow> 'a::linorder tree \<Rightarrow> 'a \<Rightarrow> (error + 'a tree) option" where
  "remove_tree k s val = remove_loop k s val (root s) None True"

text \<open>\<open>Tree.__contains__(val)\<close>\<close>

fun contains_loop :: "nat \<Rightarrow> 'a::linorder tree \<Rightarrow> ref \<Rightarrow> 'a \<Rightarrow> bool option" where
  "contains_loop 0 s t val = None"
| "contains_loop (Suc k) s t val =
     (case t of
        Empty \<Rightarrow> Some False
      | Ptr a \<Rightarrow>
         (if f_value (nodes s ! a) = val then Some True
          else if val < f_value (nodes s ! a) then contains_loop k s (left s t) val
          else contains_loop k s (right s t) val))"

definition contains :: "nat \<Rightarrow> 'a::linorder tree \<Rightarrow> 'a \<Rightarrow> bool option" where
  "contains k s val = contains_loop k s (root s) val"

text \<open>\<open>Tree.__bool__\<close>\<close>

definition non_empty :: "'a tree \<Rightarrow> bool" where
  "non_empty s = (root s \<noteq> Empty)"

section \<open>Runs of operations\<close>

datatype 'a op = Insert 'a | Remove 'a

fun apply_op :: "nat \<Rightarrow> 'a::linorder tree \<Rightarrow> 'a op \<Rightarrow> (error + 'a tree) option" where
  "apply_op k s (Insert v) = insert_tree k s v"
| "apply_op k s (Remove v) = remove_tree k s v"

fun run :: "nat \<Rightarrow> 'a::linorder tree \<Rightarrow> 'a op list \<Rightarrow> (error + 'a tree) option" where
  "run k s [] = Some (Inr s)"
| "run k s (x # xs) =
     (case apply_op k s x of
        None \<Rightarrow> None
      | Some (Inl e) \<Rightarrow> Some (Inl e)
      | Some (Inr s1) \<Rightarrow> run k s1 xs)"

section \<open>The invariants of the specification\<close>

text \<open>The nodes that can be reached from the root by following child pointers.\<close>

inductive reachable :: "'a tree \<Rightarrow> ref \<Rightarrow> bool" for s :: "'a tree" where
  reach_root: "reachable s (root s)"
| reach_left: "reachable s r \<Longrightarrow> reachable s (left s r)"
| reach_right: "reachable s r \<Longrightarrow> reachable s (right s r)"

text \<open>
  The part of the store below a reference, read as a tree of addresses: \<open>shaped s c t\<close>
  says that following the child pointers from \<open>c\<close> visits exactly the addresses of \<open>t\<close>,
  in the arrangement of \<open>t\<close>, that every one of them is an allocated object, and that no
  object is met twice.
\<close>

datatype shape = Tip | Fork shape nat shape

fun addrs :: "shape \<Rightarrow> nat set" where
  "addrs Tip = {}"
| "addrs (Fork l a r) = {a} \<union> addrs l \<union> addrs r"

fun shaped :: "'a tree \<Rightarrow> ref \<Rightarrow> shape \<Rightarrow> bool" where
  "shaped s c Tip = (c = Empty)"
| "shaped s c (Fork l a r) =
     (c = Ptr a \<and> a < length (nodes s) \<and> a \<notin> addrs l \<and> a \<notin> addrs r \<and> addrs l \<inter> addrs r = {}
      \<and> shaped s (left s c) l \<and> shaped s (right s c) r)"

text \<open>Height consistency: every node of the tree caches one more than the larger of its
  children's cached heights.\<close>

fun heights_ok :: "'a tree \<Rightarrow> shape \<Rightarrow> bool" where
  "heights_ok s Tip = True"
| "heights_ok s (Fork l a r) =
     (height s (Ptr a) = 1 + max (height s (left s (Ptr a))) (height s (right s (Ptr a)))
      \<and> heights_ok s l \<and> heights_ok s r)"




text \<open>The values of the tree, from left to right.\<close>

fun keys :: "'a tree \<Rightarrow> shape \<Rightarrow> 'a list" where
  "keys s Tip = []"
| "keys s (Fork l a r) = keys s l @ f_value (nodes s ! a) # keys s r"

text \<open>A reference is valid when it is \<open>Empty\<close> or an allocated object; \<open>names po c\<close> says
  that \<open>c\<close> is the inner node that the parent pointer \<open>po\<close> points at.\<close>

definition valid :: "'a tree \<Rightarrow> ref \<Rightarrow> bool" where
  "valid s r = (case r of Empty \<Rightarrow> True | Ptr a \<Rightarrow> a < length (nodes s))"

definition names :: "nat option \<Rightarrow> ref \<Rightarrow> bool" where
  "names po c = (\<exists>p. po = Some p \<and> c = Ptr p)"





section \<open>Concrete runs\<close>

text \<open>The store after inserting 1, 2, 3, 4 into an empty tree.\<close>

definition state_1234 :: "int tree" where
  "state_1234 =
     \<lparr>nodes =
        [\<lparr>f_value = 1, f_left = Empty, f_right = Empty, f_height = 1, f_parent = Some 1\<rparr>,
         \<lparr>f_value = 2, f_left = Ptr 0, f_right = Ptr 2, f_height = 2, f_parent = None\<rparr>,
         \<lparr>f_value = 3, f_left = Empty, f_right = Ptr 3, f_height = 2, f_parent = Some 1\<rparr>,
         \<lparr>f_value = 4, f_left = Empty, f_right = Empty, f_height = 1, f_parent = Some 2\<rparr>],
      empty_parent = Some 3, root = Ptr 1\<rparr>"

definition shape_1234 :: shape where
  "shape_1234 = Fork (Fork Tip 0 Tip) 1 (Fork Tip 2 (Fork Tip 3 Tip))"

text \<open>The store after inserting 1 and 2 and removing 1: the object of key 1 (address 0) is
  no longer reachable, and the root (address 1) still points at it as its parent.\<close>

definition state_12_without_1 :: "int tree" where
  "state_12_without_1 =
     \<lparr>nodes =
        [\<lparr>f_value = 1, f_left = Empty, f_right = Ptr 1, f_height = 2, f_parent = None\<rparr>,
         \<lparr>f_value = 2, f_left = Empty, f_right = Empty, f_height = 1, f_parent = Some 0\<rparr>],
      empty_parent = Some 1, root = Ptr 1\<rparr>"

text \<open>The store after inserting 1 once more.\<close>

definition state_12_without_1_with_1 :: "int tree" where
  "state_12_without_1_with_1 =
     \<lparr>nodes =
        [\<lparr>f_value = 1, f_left = Empty, f_right = Empty, f_height = 1, f_parent = Some 2\<rparr>,
         \<lparr>f_value = 2, f_left = Empty, f_right = Empty, f_height = 1, f_parent = Some 2\<rparr>,
         \<lparr>f_value = 1, f_left = Ptr 0, f_right = Ptr 1, f_height = 2, f_parent = None\<rparr>],
      empty_parent = Some 0, root = Ptr 2\<rparr>"

text \<open>The store after inserting 0, 1, 3, 4, 5, 2, 6 and removing 0.\<close>

definition state_0134526_without_0 :: "int tree" where
  "state_0134526_without_0 =
     \<lparr>nodes =
        [\<lparr>f_value = 0, f_left = Empty, f_right = Empty, f_height = 1, f_parent = Some 1\<rparr>,
         \<lparr>f_value = 1, f_left = Empty, f_right = Ptr 2, f_height = 3, f_parent = Some 3\<rparr>,
         \<lparr>f_value = 3, f_left = Ptr 5, f_right = Empty, f_height = 2, f_parent = Some 1\<rparr>,
         \<lparr>f_value = 4, f_left = Ptr 1, f_right = Ptr 4, f_height = 4, f_parent = None\<rparr>,
         \<lparr>f_value = 5, f_left = Empty, f_right = Ptr 6, f_height = 2, f_parent = Some 3\<rparr>,
         \<lparr>f_value = 2, f_left = Empty, f_right = Empty, f_height = 1, f_parent = Some 2\<rparr>,
         \<lparr>f_value = 6, f_left = Empty, f_right = Empty, f_height = 1, f_parent = Some 4\<rparr>],
      empty_parent = Some 1, root = Ptr 3\<rparr>"

text \<open>The store after inserting 1 into an empty tree.\<close>

definition state_1 :: "int tree" where
  "state_1 =
     \<lparr>nodes =
        [\<lparr>f_value = 1, f_left = Empty, f_right = Empty, f_height = 1, f_parent = None\<rparr>],
      empty_parent = Some 0, root = Ptr 0\<rparr>"


text \<open>
  A balanced tree with consistent heights and parents, as the nested constructor calls
  \<open>InnerNode(3, InnerNode(2, InnerNode(1)), InnerNode(4, Empty, InnerNode(6, InnerNode(5),
  InnerNode(7))))\<close> build it (addresses in the order of construction), stored in \<open>root\<close>:
  the node of key 4 (address 5) has lost its left subtree and is to be rotated to the left.
  The second state is the store after that rotation.
\<close>

definition state_before_rotation :: "int tree" where
  "state_before_rotation =
     \<lparr>nodes =
        [\<lparr>f_value = 1, f_left = Empty, f_right = Empty, f_height = 1, f_parent = Some 1\<rparr>,
         \<lparr>f_value = 2, f_left = Ptr 0, f_right = Empty, f_height = 2, f_parent = Some 6\<rparr>,
         \<lparr>f_value = 5, f_left = Empty, f_right = Empty, f_height = 1, f_parent = Some 4\<rparr>,
         \<lparr>f_value = 7, f_left = Empty, f_right = Empty, f_height = 1, f_parent = Some 4\<rparr>,
         \<lparr>f_value = 6, f_left = Ptr 2, f_right = Ptr 3, f_height = 2, f_parent = Some 5\<rparr>,
         \<lparr>f_value = 4, f_left = Empty, f_right = Ptr 4, f_height = 3, f_parent = Some 6\<rparr>,
         \<lparr>f_value = 3, f_left = Ptr 1, f_right = Ptr 5, f_height = 4, f_parent = None\<rparr>],
      empty_parent = Some 5, root = Ptr 6\<rparr>"

definition shape_before_rotation :: shape where
  "shape_before_rotation =
     Fork (Fork (Fork Tip 0 Tip) 1 Tip) 6 (Fork Tip 5 (Fork (Fork Tip 2 Tip) 4 (Fork Tip 3 Tip)))"

definition state_after_rotation :: "int tree" where
  "state_after_rotation =
     \<lparr>nodes =
        [\<lparr>f_value = 1, f_left = Empty, f_right = Empty, f_height = 1, f_parent = Some 1\<rparr>,
         \<lparr>f_value = 2, f_left = Ptr 0, f_right = Empty, f_height = 2, f_parent = Some 6\<rparr>,
         \<lparr>f_value = 5, f_left = Empty, f_right = Empty, f_height = 1, f_parent = Some 5\<rparr>,
         \<lparr>f_value = 7, f_left = Empty, f_right = Empty, f_height = 1, f_parent = Some 4\<rparr>,
         \<lparr>f_value = 6, f_left = Ptr 5, f_right = Ptr 3, f_height = 3, f_parent = Some 6\<rparr>,
         \<lparr>f_value = 4, f_left = Empty, f_right = Ptr 2, f_height = 2, f_parent = Some 4\<rparr>,
         \<lparr>f_value = 3, f_left = Ptr 1, f_right = Ptr 4, f_height = 3, f_parent = None\<rparr>],
      empty_parent = Some 5, root = Ptr 6\<rparr>"

text \<open>The store after inserting 3, 1, 0, 4, 5, 6, 2 and removing 1. The removal copied the
  key 0 into the node at address 1 and unlinked the leaf at address 2.\<close>

definition state_3104562_without_1 :: "int tree" where
  "state_3104562_without_1 =
     \<lparr>nodes =
        [\<lparr>f_value = 3, f_left = Ptr 6, f_right = Empty, f_height = 2, f_parent = Some 1\<rparr>,
         \<lparr>f_value = 0, f_left = Empty, f_right = Ptr 0, f_height = 3, f_parent = Some 3\<rparr>,
         \<lparr>f_value = 0, f_left = Empty, f_right = Empty, f_height = 1, f_parent = Some 1\<rparr>,
         \<lparr>f_value = 4, f_left = Ptr 1, f_right = Ptr 4, f_height = 4, f_parent = None\<rparr>,
         \<lparr>f_value = 5, f_left = Empty, f_right = Ptr 5, f_height = 2, f_parent = Some 3\<rparr>,
         \<lparr>f_value = 6, f_left = Empty, f_right = Empty, f_height = 1, f_parent = Some 4\<rparr>,
         \<lparr>f_value = 2, f_left = Empty, f_right = Empty, f_height = 1, f_parent = Some 0\<rparr>],
      empty_parent = Some 1, root = Ptr 3\<rparr>"

text \<open>The stores after inserting 3, 2, 5, 1, 4, 7, 8, 9, 0, where every cached height is
  consistent, and after then removing 4, which rotates the node of key 5 to the left
  below the root.\<close>

definition state_325147890 :: "int tree" where
  "state_325147890 =
     \<lparr>nodes =
        [\<lparr>f_value = 3, f_left = Ptr 3, f_right = Ptr 2, f_height = 4, f_parent = None\<rparr>,
         \<lparr>f_value = 2, f_left = Empty, f_right = Empty, f_height = 1, f_parent = Some 3\<rparr>,
         \<lparr>f_value = 5, f_left = Ptr 4, f_right = Ptr 6, f_height = 3, f_parent = Some 0\<rparr>,
         \<lparr>f_value = 1, f_left = Ptr 8, f_right = Ptr 1, f_height = 2, f_parent = Some 0\<rparr>,
         \<lparr>f_value = 4, f_left = Empty, f_right = Empty, f_height = 1, f_parent = Some 2\<rparr>,
         \<lparr>f_value = 7, f_left = Empty, f_right = Empty, f_height = 1, f_parent = Some 6\<rparr>,
         \<lparr>f_value = 8, f_left = Ptr 5, f_right = Ptr 7, f_height = 2, f_parent = Some 2\<rparr>,
         \<lparr>f_value = 9, f_left = Empty, f_right = Empty, f_height = 1, f_parent = Some 6\<rparr>,
         \<lparr>f_value = 0, f_left = Empty, f_right = Empty, f_height = 1, f_parent = Some 3\<rparr>],
      empty_parent = Some 1, root = Ptr 0\<rparr>"

definition shape_325147890 :: shape where
  "shape_325147890 =
     Fork (Fork (Fork Tip 8 Tip) 3 (Fork Tip 1 Tip)) 0
          (Fork (Fork Tip 4 Tip) 2 (Fork (Fork Tip 5 Tip) 6 (Fork Tip 7 Tip)))"

definition state_325147890_without_4 :: "int tree" where
  "state_325147890_without_4 =
     \<lparr>nodes =
        [\<lparr>f_value = 3, f_left = Ptr 3, f_right = Ptr 6, f_height = 3, f_parent = None\<rparr>,
         \<lparr>f_value = 2, f_left = Empty, f_right = Empty, f_height = 1, f_parent = Some 3\<rparr>,
         \<lparr>f_value = 5, f_left = Empty, f_right = Ptr 5, f_height = 2, f_parent = Some 6\<rparr>,
         \<lparr>f_value = 1, f_left = Ptr 8, f_right = Ptr 1, f_height = 2, f_parent = Some 0\<rparr>,
         \<lparr>f_value = 4, f_left = Empty, f_right = Empty, f_height = 1, f_parent = Some 2\<rparr>,
         \<lparr>f_value = 7, f_left = Empty, f_right = Empty, f_height = 1, f_parent = Some 2\<rparr>,
         \<lparr>f_value = 8, f_left = Ptr 2, f_right = Ptr 7, f_height = 3, f_parent = Some 0\<rparr>,
         \<lparr>f_value = 9, f_left = Empty, f_right = Empty, f_height = 1, f_parent = Some 6\<rparr>,
         \<lparr>f_value = 0, f_left = Empty, f_right = Empty, f_height = 1, f_parent = Some 3\<rparr>],
      empty_parent = Some 2, root = Ptr 0\<rparr>"

text \<open>The store after inserting 1 and 4, removing 1 and inserting 0: the rebalancing walk
  went from the root on to the removed node of key 1 (address 0) and rotated it back into
  the tree, as the left child of the new root (key 0, address 2). The second state is the
  store after inserting 1 once more.\<close>

definition state_14_without_1_with_0 :: "int tree" where
  "state_14_without_1_with_0 =
     \<lparr>nodes =
        [\<lparr>f_value = 1, f_left = Empty, f_right = Empty, f_height = 1, f_parent = Some 2\<rparr>,
         \<lparr>f_value = 4, f_left = Empty, f_right = Empty, f_height = 1, f_parent = Some 2\<rparr>,
         \<lparr>f_value = 0, f_left = Ptr 0, f_right = Ptr 1, f_height = 2, f_parent = None\<rparr>],
      empty_parent = Some 0, root = Ptr 2\<rparr>"

definition state_14_without_1_with_0_with_1 :: "int tree" where
  "state_14_without_1_with_0_with_1 =
     \<lparr>nodes =
        [\<lparr>f_value = 1, f_left = Empty, f_right = Empty, f_height = 1, f_parent = Some 2\<rparr>,
         \<lparr>f_value = 4, f_left = Ptr 3, f_right = Empty, f_height = 2, f_parent = Some 2\<rparr>,
         \<lparr>f_value = 0, f_left = Ptr 0, f_right = Ptr 1, f_height = 2, f_parent = None\<rparr>,
         \<lparr>f_value = 1, f_left = Empty, f_right = Empty, f_height = 1, f_parent = Some 1\<rparr>],
      empty_parent = Some 3, root = Ptr 2\<rparr>"





section \<open>Queries on the empty node\<close>

text \<open>
  C10. The structural queries on the \<open>Empty\<close> node never raise: its left and right
  subtrees are the \<open>Empty\<close> node itself, its height is 0 and its balance factor is 0, in
  every state of the store. Reading its value is the one query that raises
  (an \<open>AttributeError\<close>).
\<close>

theorem empty_queries_total:
  "left s Empty = Empty \<and> right s Empty = Empty \<and> height s Empty = 0 \<and> bf s Empty = 0
   \<and> value_of s Empty = Inl AttributeError"
  by (simp add: left_def right_def height_def bf_def value_of_def)

section \<open>The parent attribute of the empty node\<close>

text \<open>
  C8, as stated: no operation ever assigns the \<open>Empty\<close> node a parent. It fails on the
  first insertion: \<open>Empty.parent\<close> is \<open>None\<close> in the empty tree, and constructing the
  node of key 1 sets it to that node (address 0).
\<close>

theorem empty_parent_assigned_by_insert:
  "empty_parent (init :: int tree) = None
   \<and> run 5 init [Insert (1::int)] = Some (Inr state_1)
   \<and> empty_parent state_1 = Some 0"
  by (simp add: init_def state_1_def) code_simp

text \<open>
  C8, amended: the structural queries on the \<open>Empty\<close> node (left, right, height, balance
  factor) are the same in every state, so no operation changes them; its \<open>parent\<close>
  attribute is mutable, and it is assigned by every node construction (to the new node)
  and by every write of \<open>Empty\<close> into a child slot of a node (to that node).
\<close>

theorem empty_only_parent_mutable:
  assumes "a < length (nodes s)"
  shows "left s' Empty = Empty \<and> right s' Empty = Empty \<and> height s' Empty = 0 \<and> bf s' Empty = 0
         \<and> empty_parent (fst (new_node s v)) = Some (length (nodes s))
         \<and> empty_parent (set_left s a Empty) = Some a
         \<and> empty_parent (set_right s a Empty) = Some a"
  using assms
  by (simp add: left_def right_def height_def bf_def new_node_def set_left_def set_right_def
      set_left_field_def set_right_field_def set_parent_field_def update_height_def Let_def)

theorem empty_only_parent_mutable_witness:
  "0 < length (nodes state_1)
   \<and> empty_parent (fst (new_node state_1 5)) = Some 1
   \<and> empty_parent (set_left state_1 0 Empty) = Some 0
   \<and> empty_parent (set_right state_1 0 Empty) = Some 0"
  using empty_only_parent_mutable [of 0 state_1 state_1 5]
  by (simp add: state_1_def)

section \<open>Runs that break the invariants\<close>

text \<open>
  C2 at the run insert 1, 2, 3, 4: the root (key 2, address 1) is reachable and has the
  cached height 2, while its children have the cached heights 1 and 2, so that
  \<open>1 + max(height(left), height(right))\<close> is 3. The walk of \<open>_rebalance\<close> recomputes no
  height: only a write to a child slot does, and the slots of the root are not written
  when 4 goes below its right child.
\<close>

theorem height_stale_after_inserts:
  "run 20 init [Insert 1, Insert 2, Insert 3, Insert (4::int)] = Some (Inr state_1234)
   \<and> reachable state_1234 (Ptr 1)
   \<and> height state_1234 (Ptr 1) = 2
   \<and> 1 + max (height state_1234 (left state_1234 (Ptr 1)))
              (height state_1234 (right state_1234 (Ptr 1))) = 3"
proof -
  have run: "run 20 init [Insert 1, Insert 2, Insert 3, Insert (4::int)] = Some (Inr state_1234)"
    by code_simp
  have "reachable state_1234 (root state_1234)"
    by (rule reach_root)
  then have reach: "reachable state_1234 (Ptr 1)"
    by (simp add: state_1234_def)
  have "height state_1234 (Ptr 1) = 2"
    and "1 + max (height state_1234 (left state_1234 (Ptr 1)))
                 (height state_1234 (right state_1234 (Ptr 1))) = 3"
    by (simp_all add: state_1234_def height_def left_def right_def)
  with run reach show ?thesis by simp
qed

text \<open>
  C9 at the run insert 1, insert 2, remove 1: the node of key 2 (address 1) becomes the
  root through the first branch of \<open>_set_child\<close>, which stores it in \<open>root\<close> and returns;
  its parent pointer still names the removed node (address 0) instead of being \<open>None\<close>.
\<close>

theorem root_parent_kept_after_remove:
  "run 20 init [Insert 1, Insert 2, Remove (1::int)] = Some (Inr state_12_without_1)
   \<and> root state_12_without_1 = Ptr 1
   \<and> parent state_12_without_1 (Ptr 1) = Some 0"
proof -
  have "run 20 init [Insert 1, Insert 2, Remove (1::int)] = Some (Inr state_12_without_1)"
    by code_simp
  then show ?thesis
    by (simp add: state_12_without_1_def parent_def)
qed

text \<open>
  C3 at the run insert 1, insert 2, remove 1, insert 1: the walk of \<open>_rebalance\<close> goes
  from the root on to the removed node of key 1, finds it out of balance and rotates it
  back into the tree. The new root (address 2) has key 1 and its left child (address 0)
  has key 1 as well, which is not smaller.
\<close>

theorem order_broken_after_reinsert:
  "run 20 init [Insert 1, Insert 2, Remove 1, Insert (1::int)] = Some (Inr state_12_without_1_with_1)
   \<and> root state_12_without_1_with_1 = Ptr 2
   \<and> left state_12_without_1_with_1 (Ptr 2) = Ptr 0
   \<and> value_of state_12_without_1_with_1 (Ptr 2) = Inr 1
   \<and> value_of state_12_without_1_with_1 (Ptr 0) = Inr 1"
proof -
  have "run 20 init [Insert 1, Insert 2, Remove 1, Insert (1::int)]
        = Some (Inr state_12_without_1_with_1)"
    by code_simp
  then show ?thesis
    by (simp add: state_12_without_1_with_1_def left_def value_of_def)
qed

text \<open>
  C1 at the run insert 0, 1, 3, 4, 5, 2, 6, remove 0: the removal rotates the old root
  (key 1, address 1) to the left below the node of key 4 (address 3). The cached height
  of that node was 2 although its subtree had three levels, so the rotation was chosen
  on a wrong balance factor; afterwards the node of key 1 is the left child of the root,
  with an empty left subtree and a right subtree of cached height 2.
\<close>

theorem balance_broken_after_remove:
  "run 20 init [Insert 0, Insert 1, Insert 3, Insert 4, Insert 5, Insert 2, Insert 6,
                Remove (0::int)] = Some (Inr state_0134526_without_0)
   \<and> reachable state_0134526_without_0 (Ptr 1)
   \<and> bf state_0134526_without_0 (Ptr 1) = 2"
proof -
  have run: "run 20 init [Insert 0, Insert 1, Insert 3, Insert 4, Insert 5, Insert 2, Insert 6,
                Remove (0::int)] = Some (Inr state_0134526_without_0)"
    by code_simp
  have "reachable state_0134526_without_0 (left state_0134526_without_0 (root state_0134526_without_0))"
    by (intro reach_left reach_root)
  then have reach: "reachable state_0134526_without_0 (Ptr 1)"
    by (simp add: state_0134526_without_0_def left_def)
  have "bf state_0134526_without_0 (Ptr 1) = 2"
    by (simp add: state_0134526_without_0_def bf_def height_def left_def right_def)
  with run reach show ?thesis by simp
qed

section \<open>The two no-op conditions\<close>

text \<open>
  C5 at the run insert 1, insert 4, remove 1, insert 0, followed by insert 1. After the
  first four operations the key 1 is present in the tree: the root (key 0, address 2) has
  the node of key 1 (address 0) as its left child. The descent of \<open>insert(1)\<close> compares 1
  with the key 0 of the root, goes to the right, does not meet the node of key 1, and
  hangs a new node of key 1 (address 3) below the node of key 4 (address 1), whose
  cached height changes from 1 to 2. The membership query answers that 1 is absent.
  The insertion of a key that is present has changed the tree.
\<close>

theorem insert_present_changes_tree:
  "run 20 init [Insert 1, Insert 4, Remove 1, Insert (0::int)] = Some (Inr state_14_without_1_with_0)
   \<and> reachable state_14_without_1_with_0 (Ptr 0)
   \<and> value_of state_14_without_1_with_0 (Ptr 0) = Inr 1
   \<and> contains 20 state_14_without_1_with_0 1 = Some False
   \<and> insert_tree 20 state_14_without_1_with_0 1 = Some (Inr state_14_without_1_with_0_with_1)
   \<and> left state_14_without_1_with_0 (Ptr 1) = Empty
   \<and> left state_14_without_1_with_0_with_1 (Ptr 1) = Ptr 3
   \<and> value_of state_14_without_1_with_0_with_1 (Ptr 3) = Inr 1
   \<and> height state_14_without_1_with_0 (Ptr 1) = 1
   \<and> height state_14_without_1_with_0_with_1 (Ptr 1) = 2"
proof -
  have "run 20 init [Insert 1, Insert 4, Remove 1, Insert (0::int)]
        = Some (Inr state_14_without_1_with_0)"
    by code_simp
  moreover have "reachable state_14_without_1_with_0 (Ptr 0)"
  proof -
    have "reachable state_14_without_1_with_0 (root state_14_without_1_with_0)"
      by (rule reach_root)
    then have "reachable state_14_without_1_with_0
                 (left state_14_without_1_with_0 (root state_14_without_1_with_0))"
      by (rule reach_left)
    then show ?thesis
      by (simp add: state_14_without_1_with_0_def left_def)
  qed
  moreover have "contains 20 state_14_without_1_with_0 1 = Some False"
    by code_simp
  moreover have "insert_tree 20 state_14_without_1_with_0 1
                 = Some (Inr state_14_without_1_with_0_with_1)"
    by code_simp
  moreover have "value_of state_14_without_1_with_0 (Ptr 0) = Inr 1"
    "left state_14_without_1_with_0 (Ptr 1) = Empty"
    "height state_14_without_1_with_0 (Ptr 1) = 1"
    by (simp_all add: state_14_without_1_with_0_def value_of_def left_def height_def)
  moreover have "left state_14_without_1_with_0_with_1 (Ptr 1) = Ptr 3"
    "value_of state_14_without_1_with_0_with_1 (Ptr 3) = Inr 1"
    "height state_14_without_1_with_0_with_1 (Ptr 1) = 2"
    by (simp_all add: state_14_without_1_with_0_with_1_def value_of_def left_def height_def)
  ultimately show ?thesis by simp
qed

text \<open>The descents of \<open>insert\<close>, \<open>_remove\<close> and \<open>__contains__\<close> follow the same path,
  in every state of the store.\<close>

lemma insert_loop_present:
  "contains_loop k s t v = Some True \<Longrightarrow> insert_loop k s v t p wl = Some (Inr s)"
proof (induction k arbitrary: t p wl)
  case 0
  then show ?case by simp
next
  case (Suc k)
  show ?case
  proof (cases t)
    case Empty
    with Suc.prems show ?thesis by simp
  next
    case (Ptr a)
    with Suc.prems Suc.IH show ?thesis
      by (auto split: if_splits)
  qed
qed

lemma remove_loop_absent:
  "contains_loop k s t v = Some False \<Longrightarrow> remove_loop k s v t p wl = Some (Inr s)"
proof (induction k arbitrary: t p wl)
  case 0
  then show ?case by simp
next
  case (Suc k)
  show ?case
  proof (cases t)
    case Empty
    then show ?thesis by simp
  next
    case (Ptr a)
    with Suc.prems Suc.IH show ?thesis
      by (auto split: if_splits)
  qed
qed

text \<open>In a search tree the membership query ends and tells whether the key is one of
  the keys of the tree.\<close>

lemma contains_loop_shaped:
  "shaped s c t \<Longrightarrow> sorted_wrt (<) (keys s t) \<Longrightarrow> size t < k \<Longrightarrow>
   contains_loop k s c v = Some (v \<in> set (keys s t))"
proof (induction t arbitrary: c k)
  case Tip
  then obtain k' where "k = Suc k'"
    by (cases k) auto
  with Tip show ?case by simp
next
  case (Fork l a r)
  from Fork.prems(3) obtain k' where k: "k = Suc k'" and kl: "size l < k'" and kr: "size r < k'"
    by (cases k) auto
  from Fork.prems(1) have c: "c = Ptr a" and shl: "shaped s (left s (Ptr a)) l"
    and shr: "shaped s (right s (Ptr a)) r"
    by auto
  from Fork.prems(2) have sl: "sorted_wrt (<) (keys s l)" and sr: "sorted_wrt (<) (keys s r)"
    and lt: "\<forall>x \<in> set (keys s l). x < f_value (nodes s ! a)"
    and gt: "\<forall>x \<in> set (keys s r). f_value (nodes s ! a) < x"
    by (auto simp: sorted_wrt_append)
  note il = Fork.IH(1) [OF shl sl kl] and ir = Fork.IH(2) [OF shr sr kr]
  show ?case
    using il ir lt gt by (auto simp: k c)
qed

text \<open>
  What holds of the two early returns in every state of the store: when the membership
  query finds the key (within the fuel \<open>k\<close>), inserting that key returns without an error
  and leaves the whole state (every node, every pointer, every cached height, the root)
  as it was; when the membership query does not find the key, removing it does the same.
  And when the store below the root is a search tree \<open>t\<close> (a tree of allocated objects
  whose keys increase from left to right) and the fuel exceeds the size of \<open>t\<close>, the
  membership query ends and finds the key exactly when it is one of the keys of \<open>t\<close>.
  The state \<open>state_14_without_1_with_0\<close> above is not a search tree.
\<close>

lemma noop_insert_present_remove_absent:
  "(contains k s v = Some True \<longrightarrow> insert_tree k s v = Some (Inr s))
   \<and> (contains k s v = Some False \<longrightarrow> remove_tree k s v = Some (Inr s))
   \<and> (shaped s (root s) t \<and> sorted_wrt (<) (keys s t) \<and> size t < k \<longrightarrow>
        contains k s v = Some (v \<in> set (keys s t)))"
  by (simp add: contains_def insert_tree_def remove_tree_def insert_loop_present remove_loop_absent
      contains_loop_shaped)

lemma noop_insert_present_remove_absent_witness:
  "shaped state_1234 (root state_1234) shape_1234 \<and> sorted_wrt (<) (keys state_1234 shape_1234)
   \<and> size shape_1234 < 5
   \<and> contains 5 state_1234 3 = Some True \<and> insert_tree 5 state_1234 3 = Some (Inr state_1234)
   \<and> contains 5 state_1234 7 = Some False \<and> remove_tree 5 state_1234 7 = Some (Inr state_1234)"
proof -
  have sh: "shaped state_1234 (root state_1234) shape_1234"
    by (simp add: state_1234_def shape_1234_def left_def right_def)
  have so: "sorted_wrt (<) (keys state_1234 shape_1234)"
    by (simp add: state_1234_def shape_1234_def)
  have sz: "size shape_1234 < 5"
    by (simp add: shape_1234_def)
  have ks: "3 \<in> set (keys state_1234 shape_1234)" "7 \<notin> set (keys state_1234 shape_1234)"
    by (simp_all add: state_1234_def shape_1234_def)
  from sh so sz ks noop_insert_present_remove_absent [of 5 state_1234 3 shape_1234]
    noop_insert_present_remove_absent [of 5 state_1234 7 shape_1234]
  show ?thesis by simp
qed

section \<open>Reading the store after a write\<close>

text \<open>
  Every write of the program changes one field of one object. The lemmas of this section
  say what each read returns after each write: the written field at the written object
  is the new value, everything else is as before.
\<close>

lemma nth_upd_same_sel:
  assumes "\<And>n. sel (upd n) = sel n"
  shows "sel ((xs[a := upd (xs ! a)]) ! c) = sel (xs ! c)"
proof (cases "a < length xs")
  case True
  with assms show ?thesis by (cases "c = a") simp_all
next
  case False
  then show ?thesis by (simp add: list_update_beyond)
qed


lemma valid_length: "length (nodes s') = length (nodes s) \<Longrightarrow> valid s' r = valid s r"
  by (simp add: valid_def split: ref.split)

text \<open>Reads after a write to a parent pointer.\<close>

lemma set_parent_field_frame [simp]:
  "length (nodes (set_parent_field s r p)) = length (nodes s)"
  "left (set_parent_field s r p) c = left s c"
  "right (set_parent_field s r p) c = right s c"
  "height (set_parent_field s r p) c = height s c"
  "f_value (nodes (set_parent_field s r p) ! n) = f_value (nodes s ! n)"
  "root (set_parent_field s r p) = root s"
  by (simp_all add: set_parent_field_def left_def right_def height_def nth_upd_same_sel split: ref.split)


text \<open>Reads after a height is recomputed.\<close>

lemma update_height_frame [simp]:
  "length (nodes (update_height s a)) = length (nodes s)"
  "left (update_height s a) c = left s c"
  "right (update_height s a) c = right s c"
  "parent (update_height s a) c = parent s c"
  "f_value (nodes (update_height s a) ! n) = f_value (nodes s ! n)"
  "root (update_height s a) = root s"
  by (simp_all add: update_height_def left_def right_def parent_def nth_upd_same_sel split: ref.split)


text \<open>Reads after a plain store into a child slot.\<close>

lemma set_left_field_frame [simp]:
  "length (nodes (set_left_field s a v)) = length (nodes s)"
  "right (set_left_field s a v) c = right s c"
  "height (set_left_field s a v) c = height s c"
  "parent (set_left_field s a v) c = parent s c"
  "f_value (nodes (set_left_field s a v) ! n) = f_value (nodes s ! n)"
  "root (set_left_field s a v) = root s"
  by (simp_all add: set_left_field_def right_def height_def parent_def nth_upd_same_sel split: ref.split)


lemma set_right_field_frame [simp]:
  "length (nodes (set_right_field s a v)) = length (nodes s)"
  "left (set_right_field s a v) c = left s c"
  "height (set_right_field s a v) c = height s c"
  "parent (set_right_field s a v) c = parent s c"
  "f_value (nodes (set_right_field s a v) ! n) = f_value (nodes s ! n)"
  "root (set_right_field s a v) = root s"
  by (simp_all add: set_right_field_def left_def height_def parent_def nth_upd_same_sel split: ref.split)


lemma valid_field_writes [simp]:
  "valid (set_parent_field s r p) c = valid s c"
  "valid (update_height s a) c = valid s c"
  "valid (set_left_field s a v) c = valid s c"
  "valid (set_right_field s a v) c = valid s c"
  by (rule valid_length, simp)+

text \<open>Reads after a call of a setter.\<close>

lemma set_left_frame [simp]:
  "length (nodes (set_left s a v)) = length (nodes s)"
  "right (set_left s a v) c = right s c"
  "f_value (nodes (set_left s a v) ! n) = f_value (nodes s ! n)"
  "root (set_left s a v) = root s"
  by (simp_all add: set_left_def Let_def)




lemma set_right_frame [simp]:
  "length (nodes (set_right s a v)) = length (nodes s)"
  "left (set_right s a v) c = left s c"
  "f_value (nodes (set_right s a v) ! n) = f_value (nodes s ! n)"
  "root (set_right s a v) = root s"
  by (simp_all add: set_right_def Let_def)




text \<open>Comparisons of nodes that end without recursion.\<close>

lemma node_eq_same [simp]: "node_eq k s r r = Some True"
  by (cases r; cases k) simp_all

lemma node_eq_Empty [simp]: "node_eq k s Empty r = Some (r = Empty)" "node_eq k s r Empty = Some (r = Empty)"
  by (cases r; simp)+

lemma node_eq_value:
  "f_value (nodes s ! a) \<noteq> f_value (nodes s ! b) \<Longrightarrow> node_eq (Suc k) s (Ptr a) (Ptr b) = Some False"
  by auto




lemma root_update_frame [simp]:
  "nodes (s\<lparr>root := r\<rparr>) = nodes s"
  "left (s\<lparr>root := r\<rparr>) c = left s c"
  "right (s\<lparr>root := r\<rparr>) c = right s c"
  "height (s\<lparr>root := r\<rparr>) c = height s c"
  "parent (s\<lparr>root := r\<rparr>) c = parent s c"
  "valid (s\<lparr>root := r\<rparr>) c = valid s c"
  by (simp_all add: left_def right_def height_def parent_def valid_def split: ref.split)

lemma valid_setters [simp]:
  "valid (set_left s a v) c = valid s c"
  "valid (set_right s a v) c = valid s c"
  by (rule valid_length, simp)+

lemma names_simps [simp]:
  "names None r = False" "names po Empty = False" "names (Some p) (Ptr c) = (p = c)"
  by (auto simp: names_def)

lemma empty_reads [simp]: "left s Empty = Empty" "right s Empty = Empty" "height s Empty = 0"
  by (simp_all add: left_def right_def height_def)




section \<open>Trees in the store\<close>










section \<open>The postcondition of \<open>_balance_node\<close>\<close>










section \<open>The height of the parent after a rotation\<close>

text \<open>
  C7 at the state \<open>state_before_rotation\<close>, a tree with consistent heights, and the
  rotation \<open>_rot_left\<close> of the node of key 4 (address 5): the links are rewritten as the
  claim says (the node of key 6, address 4, takes the place of the node of key 4 below
  the root), but the cached height of the former parent (the root, address 6) is 3
  afterwards, while its children have the cached heights 2 and 3. \<open>_set_parent\<close> runs
  first, and the setter recomputes the parent's height from the height that the node of
  key 6 had before the rotation; that height grows by one when the node of key 4 becomes
  its child.
\<close>

theorem rot_left_parent_height_stale:
  "shaped state_before_rotation (Ptr 6) shape_before_rotation
   \<and> heights_ok state_before_rotation shape_before_rotation
   \<and> rot_left (Suc 0) state_before_rotation 5 = Some (Inr (state_after_rotation, 4))
   \<and> right state_after_rotation (Ptr 6) = Ptr 4
   \<and> height state_after_rotation (Ptr 6) = 3
   \<and> 1 + max (height state_after_rotation (left state_after_rotation (Ptr 6)))
              (height state_after_rotation (right state_after_rotation (Ptr 6))) = 4"
proof -
  have "shaped state_before_rotation (Ptr 6) shape_before_rotation"
    by (simp add: state_before_rotation_def shape_before_rotation_def left_def right_def)
  moreover have "heights_ok state_before_rotation shape_before_rotation"
    by (simp add: state_before_rotation_def shape_before_rotation_def left_def right_def height_def)
  moreover have "rot_left (Suc 0) state_before_rotation 5 = Some (Inr (state_after_rotation, 4))"
    by code_simp
  moreover have "right state_after_rotation (Ptr 6) = Ptr 4"
    "height state_after_rotation (Ptr 6) = 3"
    "1 + max (height state_after_rotation (left state_after_rotation (Ptr 6)))
             (height state_after_rotation (right state_after_rotation (Ptr 6))) = 4"
    by (simp_all add: state_after_rotation_def left_def right_def height_def)
  ultimately show ?thesis by simp
qed

text \<open>
  The same happens inside a run of the public operations. After the insertions
  3, 2, 5, 1, 4, 7, 8, 9, 0 every cached height of the tree is consistent; removing 4
  rotates the node of key 5 to the left below the root, and the cached height of the
  root is 3 afterwards while its children have the cached heights 2 and 3.
\<close>

lemma rot_left_parent_height_stale_in_run:
  "run 20 init [Insert 3, Insert 2, Insert 5, Insert 1, Insert 4, Insert 7, Insert 8, Insert 9,
                Insert (0::int)] = Some (Inr state_325147890)
   \<and> shaped state_325147890 (root state_325147890) shape_325147890
   \<and> heights_ok state_325147890 shape_325147890
   \<and> remove_tree 20 state_325147890 4 = Some (Inr state_325147890_without_4)
   \<and> root state_325147890_without_4 = Ptr 0
   \<and> height state_325147890_without_4 (Ptr 0) = 3
   \<and> 1 + max (height state_325147890_without_4 (left state_325147890_without_4 (Ptr 0)))
              (height state_325147890_without_4 (right state_325147890_without_4 (Ptr 0))) = 4"
proof -
  have "run 20 init [Insert 3, Insert 2, Insert 5, Insert 1, Insert 4, Insert 7, Insert 8, Insert 9,
                Insert (0::int)] = Some (Inr state_325147890)"
    by code_simp
  moreover have "shaped state_325147890 (root state_325147890) shape_325147890"
    by (simp add: state_325147890_def shape_325147890_def left_def right_def)
  moreover have "heights_ok state_325147890 shape_325147890"
    by (simp add: state_325147890_def shape_325147890_def left_def right_def height_def)
  moreover have "remove_tree 20 state_325147890 4 = Some (Inr state_325147890_without_4)"
    by code_simp
  moreover have "root state_325147890_without_4 = Ptr 0"
    "height state_325147890_without_4 (Ptr 0) = 3"
    "1 + max (height state_325147890_without_4 (left state_325147890_without_4 (Ptr 0)))
             (height state_325147890_without_4 (right state_325147890_without_4 (Ptr 0))) = 4"
    by (simp_all add: state_325147890_without_4_def left_def right_def height_def)
  ultimately show ?thesis by simp
qed

section \<open>A removal that raises\<close>

text \<open>
  C4 at the run insert 3, 1, 0, 4, 5, 6, 2, remove 1, remove 5: the keys are pairwise
  different and all inserted before the first removal. The removal of 1 returns and
  leaves the node at address 1 with a balance factor of +2 (an empty left subtree, a right
  subtree of cached height 2). The removal of 5 then unlinks its node and walks up to the
  root (key 4, address 3), whose balance factor is -2 and whose left child has the
  balance factor +2: none of the four cases of \<open>_balance_node\<close> applies, and its final
  assertion fails. The removal raises \<open>AssertionError\<close> instead of returning.
\<close>

theorem remove_raises_in_round_trip:
  "run 20 init [Insert 3, Insert 1, Insert 0, Insert 4, Insert 5, Insert 6, Insert 2,
                Remove (1::int)] = Some (Inr state_3104562_without_1)
   \<and> bf state_3104562_without_1 (Ptr 1) = 2
   \<and> remove_tree 20 state_3104562_without_1 5 = Some (Inl AssertionError)"
proof -
  have "run 20 init [Insert 3, Insert 1, Insert 0, Insert 4, Insert 5, Insert 6, Insert 2,
                Remove (1::int)] = Some (Inr state_3104562_without_1)"
    by code_simp
  moreover have "bf state_3104562_without_1 (Ptr 1) = 2"
    by (simp add: state_3104562_without_1_def bf_def height_def left_def right_def)
  moreover have "remove_tree 20 state_3104562_without_1 5 = Some (Inl AssertionError)"
    by code_simp
  ultimately show ?thesis by simp
qed

end
